theory Spec2Isabelle
  imports Main "HOL-Library.Word"
begin

section \<open>JavaScript strings\<close>

text \<open>
  A JavaScript string is a sequence of UTF-16 code units; \<open>length\<close>, indexing, \<open>split\<close>,
  \<open>slice\<close> and \<open>trim\<close> all count code units.  The literals of the component are ASCII and
  are kept as HOL strings; user data (names, payloads) are code-unit lists.
\<close>

type_synonym code_unit = "16 word"
type_synonym js_string = "code_unit list"

definition js :: "string \<Rightarrow> js_string" where
  "js s = map of_char s"

definition space :: code_unit where
  "space = 0x20"

text \<open>
  \<open>String.prototype.trim\<close> removes WhiteSpace and LineTerminator code points from both
  ends: TAB, VT, FF, SP, NBSP, ZWNBSP, the Unicode space separators, and LF, CR, LS, PS.
\<close>

definition isWhiteSpace :: "code_unit \<Rightarrow> bool" where
  "isWhiteSpace c \<longleftrightarrow>
     c \<in> {0x09, 0x0A, 0x0B, 0x0C, 0x0D, 0x20, 0xA0, 0x1680, 0x2028, 0x2029,
          0x202F, 0x205F, 0x3000, 0xFEFF}
     \<or> (0x2000 \<le> c \<and> c \<le> 0x200A)"

definition trim :: "js_string \<Rightarrow> js_string" where
  "trim s = rev (dropWhile isWhiteSpace (rev (dropWhile isWhiteSpace s)))"

text \<open>\<open>s.split(sep)\<close> for a separator of one code unit: never the empty array.\<close>

fun split_js :: "code_unit \<Rightarrow> js_string \<Rightarrow> js_string list" where
  "split_js sep [] = [[]]"
| "split_js sep (c # cs) =
     (if c = sep then [] # split_js sep cs
      else (case split_js sep cs of
              [] \<Rightarrow> [[c]]
            | word # rest \<Rightarrow> (c # word) # rest))"

text \<open>\<open>word[0]\<close> is \<open>undefined\<close> on the empty string, else the string of its first unit.\<close>

datatype js_value = Undefined | Str js_string

definition index0 :: "js_string \<Rightarrow> js_value" where
  "index0 word = (case word of [] \<Rightarrow> Undefined | c # rest \<Rightarrow> Str [c])"

text \<open>\<open>xs.join('')\<close> writes \<open>undefined\<close> elements as the empty string.\<close>

fun join_js :: "js_value list \<Rightarrow> js_string" where
  "join_js [] = []"
| "join_js (Undefined # vs) = join_js vs"
| "join_js (Str s # vs) = s @ join_js vs"

text \<open>\<open>s.slice(b, e)\<close> for indices that are not negative.\<close>

definition slice_js :: "nat \<Rightarrow> nat \<Rightarrow> js_string \<Rightarrow> js_string" where
  "slice_js b e s = take (e - b) (drop b s)"

text \<open>
  The ASCII part of \<open>toUpperCase\<close>, for evaluating examples.  The built-in itself is a
  parameter of \<open>getInitials\<close> below: it is the Unicode case mapping of the host, which may
  also lengthen a string.
\<close>

definition upper_ascii :: "js_string \<Rightarrow> js_string" where
  "upper_ascii s = map (\<lambda>c. if 0x61 \<le> c \<and> c \<le> 0x7A then c - 0x20 else c) s"


section \<open>Display initials\<close>

text \<open>
  \<open>getInitials\<close> (AccountSelector.tsx, lines 43 to 50):
  \<open>name.split(' ').map(word => word[0]).join('').toUpperCase().slice(0, 2)\<close>.
\<close>

definition initials_joined :: "js_string \<Rightarrow> js_string" where
  "initials_joined nm = join_js (map index0 (split_js space nm))"

definition getInitials :: "(js_string \<Rightarrow> js_string) \<Rightarrow> js_string \<Rightarrow> js_string" where
  "getInitials toUpperCase nm = slice_js 0 2 (toUpperCase (initials_joined nm))"

text \<open>
  The specification's wording, for comparison: the first letter of each space-separated
  word, concatenated, uppercased, truncated to two characters.  The words are read here
  without \<open>split_js\<close>: a word runs up to the next space, and the words after that space
  follow.  A word without letters has no first letter.
\<close>

function words_of :: "js_string \<Rightarrow> js_string list" where
  "words_of s =
     takeWhile (\<lambda>c. c \<noteq> space) s
       # (case dropWhile (\<lambda>c. c \<noteq> space) s of
            [] \<Rightarrow> []
          | sp # rest \<Rightarrow> words_of rest)"
  by pat_completeness auto

termination
proof (relation "measure length")
  show "wf (measure length)" by simp
next
  fix s :: js_string and sp rest
  assume d: "dropWhile (\<lambda>c. c \<noteq> space) s = sp # rest"
  have "length (dropWhile (\<lambda>c. c \<noteq> space) s) \<le> length s" by (rule length_dropWhile_le)
  then show "(rest, s) \<in> measure length" using d by simp
qed

declare words_of.simps [simp del]

definition first_letter :: "js_string \<Rightarrow> js_string" where
  "first_letter word = take 1 word"

definition initials_spec :: "(js_string \<Rightarrow> js_string) \<Rightarrow> js_string \<Rightarrow> js_string" where
  "initials_spec upper nm = take 2 (upper (concat (map first_letter (words_of nm))))"

text \<open>
  The same letters, read off by position: a code unit starts a word when it is not a space
  and is the first of the name or follows a space.
\<close>

fun word_starts :: "bool \<Rightarrow> js_string \<Rightarrow> js_string" where
  "word_starts at_start [] = []"
| "word_starts at_start (c # cs) =
     (if c = space then word_starts True cs
      else if at_start then c # word_starts False cs
      else word_starts False cs)"


section \<open>Accounts and slots\<close>

text \<open>
  The types \<open>Account\<close> and \<open>AccountSlot\<close> are declared by the hook \<open>useAccountManager\<close>; the
  component reads \<open>slot\<close>, \<open>isEmpty\<close>, \<open>account\<close>, and of an account \<open>id\<close>, \<open>name\<close>,
  \<open>avatar\<close> (optional) and \<open>createdAt\<close>.
\<close>

record account =
  id_acc :: js_string
  name :: js_string
  avatar :: "js_string option"
  createdAt :: js_string

record accountSlot =
  slot :: int
  isEmpty :: bool
  account :: "account option"

text \<open>
  The avatar fallback (line 155):
  \<open>accountSlot.account?.avatar || getInitials(accountSlot.account?.name || '')\<close>.
  Optional chaining gives \<open>undefined\<close> on a missing account; \<open>||\<close> takes its right operand
  when the left one is \<open>undefined\<close> or the empty string.
\<close>

definition chain_avatar :: "account option \<Rightarrow> js_string option" where
  "chain_avatar a = (case a of None \<Rightarrow> None | Some x \<Rightarrow> avatar x)"

definition chain_name :: "account option \<Rightarrow> js_string option" where
  "chain_name a = (case a of None \<Rightarrow> None | Some x \<Rightarrow> Some (name x))"

definition or_js :: "js_string option \<Rightarrow> js_string \<Rightarrow> js_string" where
  "or_js l r = (case l of None \<Rightarrow> r | Some s \<Rightarrow> if s = [] then r else s)"

definition avatarFallback :: "(js_string \<Rightarrow> js_string) \<Rightarrow> accountSlot \<Rightarrow> js_string" where
  "avatarFallback toUpperCase accountSlot =
     or_js (chain_avatar (account accountSlot))
           (getInitials toUpperCase (or_js (chain_name (account accountSlot)) []))"


section \<open>The selector component\<close>

text \<open>
  The state of \<open>AccountSelector\<close> is its five \<open>useState\<close> cells (lines 36 to 40).  The
  effects of the handlers are recorded beside them: the toasts shown, the calls made to
  \<open>importFromQR\<close>, how many of those calls have not settled yet, and the page reloads
  requested.
\<close>

datatype toast = ToastError string | ToastSuccess string

datatype import_method = File | Camera

record selector =
  showImportDialog :: bool
  importMethod :: import_method
  qrData :: js_string
  selectedSlot :: int
  importing :: bool
  toasts :: "toast list"
  importCalls :: "(js_string \<times> int) list"
  inFlight :: nat
  reloads :: nat

definition initial :: selector where
  "initial = \<lparr>showImportDialog = False, importMethod = File, qrData = [],
     selectedSlot = 1, importing = False, toasts = [], importCalls = [], inFlight = 0,
     reloads = 0\<rparr>"

definition msg_all_occupied :: string where
  "msg_all_occupied = ''All account slots are occupied. Please remove an account first.''"

definition msg_no_payload :: string where
  "msg_no_payload = ''Please provide QR code data''"

definition msg_imported :: string where
  "msg_imported = ''Account imported successfully!''"

definition msg_import_failed :: string where
  "msg_import_failed = ''Failed to import account. Please check your QR code.''"

definition toast_error :: "string \<Rightarrow> selector \<Rightarrow> selector" where
  "toast_error m st = st\<lparr>toasts := toasts st @ [ToastError m]\<rparr>"

definition toast_success :: "string \<Rightarrow> selector \<Rightarrow> selector" where
  "toast_success m st = st\<lparr>toasts := toasts st @ [ToastSuccess m]\<rparr>"

text \<open>
  \<open>handleImportAccount\<close> (lines 52 to 60).  \<open>accounts.find(acc => acc.isEmpty)?.slot\<close> is
  the number of the first empty slot in array order, or \<open>undefined\<close>; \<open>!availableSlot\<close> holds
  for \<open>undefined\<close> and for the number 0.
\<close>

definition availableSlot :: "accountSlot list \<Rightarrow> int option" where
  "availableSlot accounts = map_option slot (List.find isEmpty accounts)"

definition handleImportAccount :: "accountSlot list \<Rightarrow> selector \<Rightarrow> selector" where
  "handleImportAccount accounts st =
     (case availableSlot accounts of
        None \<Rightarrow> toast_error msg_all_occupied st
      | Some n \<Rightarrow>
          if n = 0 then toast_error msg_all_occupied st
          else st\<lparr>selectedSlot := n, showImportDialog := True\<rparr>)"

text \<open>
  \<open>handleQRImport\<close> (lines 62 to 81) in its two halves: up to the \<open>await\<close> (the payload
  check, \<open>setImporting(true)\<close>, the call), and from the settling of the promise on (\<open>try\<close>
  rest, \<open>catch\<close>, \<open>finally\<close>).  A rejected promise carries a value of any type \<open>'e\<close>, which
  the \<open>catch\<close> does not inspect.
\<close>

definition handleQRImport_begin :: "selector \<Rightarrow> selector" where
  "handleQRImport_begin st =
     (if trim (qrData st) = [] then toast_error msg_no_payload st
      else st\<lparr>importing := True,
              importCalls := importCalls st @ [(qrData st, selectedSlot st)],
              inFlight := Suc (inFlight st)\<rparr>)"

definition handleQRImport_settle :: "'e + unit \<Rightarrow> selector \<Rightarrow> selector" where
  "handleQRImport_settle r st =
     (case r of
        Inr u \<Rightarrow>
          (toast_success msg_imported st)
            \<lparr>showImportDialog := False, qrData := [], reloads := Suc (reloads st),
             importing := False, inFlight := inFlight st - 1\<rparr>
      | Inl e \<Rightarrow>
          (toast_error msg_import_failed st)
            \<lparr>importing := False, inFlight := inFlight st - 1\<rparr>)"

text \<open>
  The whole handler against a collaborator \<open>imp\<close> standing for \<open>importFromQR\<close>: a function
  of the payload, the slot and the world \<open>'w\<close> it may write to, giving the outcome of the
  promise and the world it leaves.
\<close>

type_synonym ('e, 'w) importer = "js_string \<Rightarrow> int \<Rightarrow> 'w \<Rightarrow> ('e + unit) \<times> 'w"

definition handleQRImport :: "('e, 'w) importer \<Rightarrow> selector \<Rightarrow> 'w \<Rightarrow> selector \<times> 'w" where
  "handleQRImport imp st w =
     (if trim (qrData st) = [] then (handleQRImport_begin st, w)
      else
        let called = imp (qrData st) (selectedSlot st) w
        in (handleQRImport_settle (fst called) (handleQRImport_begin st), snd called))"

text \<open>A collaborator that rejects with a given value and writes nothing.\<close>

definition throwing :: "'e \<Rightarrow> ('e, 'w) importer" where
  "throwing e payload n w = (Inl e, w)"

text \<open>
  The component as a transition system.  A user event is handled to its end, and the
  state it sets is rendered, before the next event; the promise of \<open>importFromQR\<close> settles
  as an event of its own.  The Import button is disabled by
  \<open>importing || !qrData.trim()\<close> (line 286) and lives in the open dialog; the button that
  starts the flow is disabled when no slot is empty (line 201).  \<open>ChangePayload\<close> is
  \<open>setQrData\<close>, from the text area or from a file that was read; it and the remaining
  events are taken as always possible.  The reload requested after a success mounts the
  component anew in \<open>initial\<close>, with no call pending; it is only counted here.
\<close>

datatype 'e event =
    ClickImport
  | Settle "'e + unit"
  | ClickImportAccount "accountSlot list"
  | ChangePayload js_string
  | DialogOpenChange bool
  | ChooseMethod import_method

fun enabled :: "'e event \<Rightarrow> selector \<Rightarrow> bool" where
  "enabled ClickImport st =
     (showImportDialog st \<and> \<not> (importing st \<or> trim (qrData st) = []))"
| "enabled (Settle r) st = (0 < inFlight st)"
| "enabled (ClickImportAccount accounts) st = list_ex isEmpty accounts"
| "enabled (ChangePayload s) st = True"
| "enabled (DialogOpenChange b) st = True"
| "enabled (ChooseMethod m) st = True"

fun fire :: "'e event \<Rightarrow> selector \<Rightarrow> selector" where
  "fire ClickImport st = handleQRImport_begin st"
| "fire (Settle r) st = handleQRImport_settle r st"
| "fire (ClickImportAccount accounts) st = handleImportAccount accounts st"
| "fire (ChangePayload s) st = st\<lparr>qrData := s\<rparr>"
| "fire (DialogOpenChange b) st = st\<lparr>showImportDialog := b\<rparr>"
| "fire (ChooseMethod m) st = st\<lparr>importMethod := m\<rparr>"

definition step :: "'e event \<Rightarrow> selector \<Rightarrow> selector" where
  "step ev st = (if enabled ev st then fire ev st else st)"

fun run :: "'e event list \<Rightarrow> selector \<Rightarrow> selector" where
  "run [] st = st"
| "run (ev # evs) st = run evs (step ev st)"

definition one_in_flight :: "selector \<Rightarrow> bool" where
  "one_in_flight st \<longleftrightarrow> inFlight st \<le> 1 \<and> (importing st \<longleftrightarrow> inFlight st = 1)"


section \<open>The registry and the import resolver\<close>

text \<open>
  Modelled from the spec: the order of the slot list.  The hook \<open>useAccountManager\<close> that
  builds \<open>accounts\<close> is not part of the sources; the specification numbers the slots with
  positive integers and lists them in slot-number order.
\<close>

definition in_slot_order :: "accountSlot list \<Rightarrow> bool" where
  "in_slot_order accounts \<longleftrightarrow>
     sorted (map slot accounts) \<and> list_all (\<lambda>s. 0 < slot s) accounts"

definition registry_slots :: "accountSlot list \<Rightarrow> bool" where
  "registry_slots accounts \<longleftrightarrow> map slot accounts = map int [1 ..< Suc (length accounts)]"

definition lowest_empty :: "accountSlot list \<Rightarrow> int" where
  "lowest_empty accounts = Min (set (map slot (filter isEmpty accounts)))"

datatype import_error =
    AllSlotsOccupied
  | EmptyPayload
  | DecodeError
  | InvalidSlot
  | SlotOccupied
  | SlotAlreadyEmpty
  | PersistenceFailure

text \<open>
  Modelled from the spec: \<open>Registry.bindAccount\<close>, which is not part of the sources.  It
  fails with \<open>SlotOccupied\<close> when the target slot is not empty and with \<open>InvalidSlot\<close> when
  the slot number does not exist; on success it binds the account in that slot and
  persists the slots, and a failure to persist rolls the binding back.  \<open>save\<close> is the
  account store.
\<close>

definition bindAccount ::
  "(accountSlot list \<Rightarrow> bool) \<Rightarrow> int \<Rightarrow> account \<Rightarrow> accountSlot list
     \<Rightarrow> import_error + accountSlot list" where
  "bindAccount save n a reg =
     (case List.find (\<lambda>s. slot s = n) reg of
        None \<Rightarrow> Inl InvalidSlot
      | Some s \<Rightarrow>
          if \<not> isEmpty s then Inl SlotOccupied
          else
            let bound = map (\<lambda>t. if slot t = n
                                  then t\<lparr>isEmpty := False, account := Some a\<rparr> else t) reg
            in if save bound then Inr bound else Inl PersistenceFailure)"

text \<open>
  Modelled from the spec: \<open>importFromQR\<close> of the hook \<open>useQRTransfer\<close> (the Account Import
  Resolver), which is not part of the sources.  It decodes the payload with the pure
  function \<open>decode\<close> and, on success, delegates to \<open>bindAccount\<close>; a decode failure is
  \<open>DecodeError\<close>, and the errors of the registry are passed on.
\<close>

definition importFromQR ::
  "(js_string \<Rightarrow> account option) \<Rightarrow> (accountSlot list \<Rightarrow> bool)
     \<Rightarrow> (import_error, accountSlot list) importer" where
  "importFromQR decode save payload n reg =
     (case decode payload of
        None \<Rightarrow> (Inl DecodeError, reg)
      | Some a \<Rightarrow>
          (case bindAccount save n a reg of
             Inl e \<Rightarrow> (Inl e, reg)
           | Inr bound \<Rightarrow> (Inr (), bound)))"


section \<open>Example data\<close>

text \<open>
  Two accounts, slots, a codec that knows one payload, a store that always saves, and a
  short session of user events, for evaluating the definitions on concrete inputs.
\<close>

definition alice :: account where
  "alice = \<lparr>id_acc = js ''acct-alice'', name = js ''alice liddell'', avatar = None,
     createdAt = js ''2024-01-01''\<rparr>"

definition bob :: account where
  "bob = \<lparr>id_acc = js ''acct-bob'', name = js ''bob marley'', avatar = Some (js ''BB''),
     createdAt = js ''2024-02-01''\<rparr>"

definition empty_slot :: "int \<Rightarrow> accountSlot" where
  "empty_slot n = \<lparr>slot = n, isEmpty = True, account = None\<rparr>"

definition bound_slot :: "int \<Rightarrow> account \<Rightarrow> accountSlot" where
  "bound_slot n a = \<lparr>slot = n, isEmpty = False, account = Some a\<rparr>"

definition decode_demo :: "js_string \<Rightarrow> account option" where
  "decode_demo p = (if p = js ''bob'' then Some bob else None)"

definition save_ok :: "accountSlot list \<Rightarrow> bool" where
  "save_ok reg = True"

definition session_events :: "import_error event list" where
  "session_events =
     [ClickImportAccount [bound_slot 1 alice, empty_slot 2], ChangePayload (js ''bob''),
      ClickImport, ClickImport]"



section \<open>Properties of the initials\<close>

lemma split_js_not_empty: "split_js sep s \<noteq> []"
  by (cases s) (simp_all split: list.split)

lemma split_js_Cons:
  "split_js sep (c # cs) =
     (if c = sep then [] # split_js sep cs
      else (c # hd (split_js sep cs)) # tl (split_js sep cs))"
  using split_js_not_empty [of sep cs] by (cases "split_js sep cs") simp_all

lemma first_letter_simps:
  "first_letter [] = []"
  "first_letter (c # cs) = [c]"
  by (simp_all add: first_letter_def)

lemma join_index0_concat:
  "join_js (map index0 ws) = concat (map first_letter ws)"
proof (induction ws)
  case Nil
  show ?case by simp
next
  case (Cons w ws)
  then show ?case
    by (cases w) (simp_all add: index0_def first_letter_simps)
qed

lemma join_index0_filter:
  "join_js (map index0 ws) = map hd (filter (\<lambda>w. w \<noteq> []) ws)"
proof (induction ws)
  case Nil
  show ?case by simp
next
  case (Cons w ws)
  then show ?case
    by (cases w) (simp_all add: index0_def)
qed

lemma word_starts_split:
  "word_starts True s = concat (map first_letter (split_js space s))"
  "word_starts False s = concat (map first_letter (tl (split_js space s)))"
proof (induction s)
  case Nil
  show "word_starts True [] = concat (map first_letter (split_js space []))"
    by (simp add: first_letter_simps)
  show "word_starts False [] = concat (map first_letter (tl (split_js space [])))"
    by simp
next
  case (Cons c cs)
  show "word_starts True (c # cs) = concat (map first_letter (split_js space (c # cs)))"
    using Cons by (simp add: first_letter_simps split_js_Cons del: split_js.simps)
  show "word_starts False (c # cs) = concat (map first_letter (tl (split_js space (c # cs))))"
    using Cons by (simp add: split_js_Cons del: split_js.simps)
qed

lemma split_js_unfold:
  "split_js space s =
     takeWhile (\<lambda>c. c \<noteq> space) s
       # (case dropWhile (\<lambda>c. c \<noteq> space) s of
            [] \<Rightarrow> []
          | sp # rest \<Rightarrow> split_js space rest)"
proof (induction s)
  case Nil
  show ?case by simp
next
  case (Cons c cs)
  define later where
    "later = (case dropWhile (\<lambda>c. c \<noteq> space) cs of
                [] \<Rightarrow> [] | sp # rest \<Rightarrow> split_js space rest)"
  have ih: "split_js space cs = takeWhile (\<lambda>c. c \<noteq> space) cs # later"
    unfolding later_def by (rule Cons.IH)
  show ?case
  proof (cases "c = space")
    case True
    then show ?thesis by simp
  next
    case False
    have "split_js space (c # cs) = (c # takeWhile (\<lambda>c. c \<noteq> space) cs) # later"
      using False by (simp only: split_js.simps ih if_False list.case)
    moreover have "takeWhile (\<lambda>c. c \<noteq> space) (c # cs) = c # takeWhile (\<lambda>c. c \<noteq> space) cs"
      using False by simp
    moreover have "dropWhile (\<lambda>c. c \<noteq> space) (c # cs) = dropWhile (\<lambda>c. c \<noteq> space) cs"
      using False by simp
    ultimately show ?thesis by (simp only: later_def)
  qed
qed

lemma words_of_split: "words_of s = split_js space s"
proof (induction s rule: words_of.induct)
  case (1 s)
  show ?case
  proof (cases "dropWhile (\<lambda>c. c \<noteq> space) s")
    case Nil
    have "words_of s = [takeWhile (\<lambda>c. c \<noteq> space) s]"
      by (subst words_of.simps) (simp only: Nil list.case)
    moreover have "split_js space s = [takeWhile (\<lambda>c. c \<noteq> space) s]"
      by (subst split_js_unfold) (simp only: Nil list.case)
    ultimately show ?thesis by simp
  next
    case (Cons sp rest)
    then have ih: "words_of rest = split_js space rest" by (rule 1)
    have "words_of s = takeWhile (\<lambda>c. c \<noteq> space) s # words_of rest"
      by (subst words_of.simps) (simp only: Cons list.case)
    moreover have "split_js space s = takeWhile (\<lambda>c. c \<noteq> space) s # split_js space rest"
      by (subst split_js_unfold) (simp only: Cons list.case)
    ultimately show ?thesis using ih by simp
  qed
qed

lemma initials_joined_word_starts: "initials_joined nm = word_starts True nm"
  by (simp add: initials_joined_def join_index0_concat word_starts_split)

lemma initials_spec_examples:
  "words_of (js ''ab  c'') = [js ''ab'', [], js ''c'']"
  "initials_spec upper_ascii (js ''john ronald reuel'') = js ''JR''"
  "initials_spec upper_ascii (js ''  mary'') = js ''M''"
  by (simp_all add: initials_spec_def words_of.simps first_letter_def js_def space_def
      upper_ascii_def)

text \<open>
  C6.  For every name, \<open>getInitials\<close> is the first letter of each space-separated word of
  the name, concatenated, uppercased, and truncated to two characters; this holds for every
  case mapping put in place of \<open>toUpperCase\<close>.  The words and their first letters are those
  of \<open>words_of\<close>, and equally the letters that \<open>word_starts\<close> finds by position; neither
  goes through the \<open>split\<close> of the code.  Letters and characters are code units, as
  \<open>word[0]\<close> and \<open>slice\<close> count them.
\<close>

theorem getInitials_meets_spec:
  "getInitials upper nm = initials_spec upper nm
   \<and> getInitials upper nm = take 2 (upper (word_starts True nm))"
  by (simp add: getInitials_def initials_spec_def initials_joined_def slice_js_def
      join_index0_concat words_of_split word_starts_split)

text \<open>
  C10.  \<open>getInitials\<close> has no failing branch: \<open>word[0]\<close> on an empty word is \<open>undefined\<close>,
  which \<open>join\<close> writes as nothing.  Its result has at most two code units, the empty name
  included, and the empty words of a name with consecutive spaces contribute no character.
\<close>

theorem getInitials_total_bounded:
  "length (getInitials upper nm) \<le> 2
   \<and> getInitials upper [] = take 2 (upper [])
   \<and> initials_joined nm = map hd (filter (\<lambda>w. w \<noteq> []) (split_js space nm))"
  by (simp add: getInitials_def initials_joined_def slice_js_def join_index0_filter
      index0_def)

text \<open>
  C7.  For a slot bound to an account, the displayed token is the account's avatar when
  that is present and not empty, and otherwise the initials derived from its name.
\<close>

theorem avatarFallback_bound:
  assumes "account s = Some a"
  shows "avatarFallback upper s =
           (case avatar a of
              None \<Rightarrow> getInitials upper (name a)
            | Some v \<Rightarrow> if v \<noteq> [] then v else getInitials upper (name a))"
proof -
  have nm: "getInitials upper (or_js (Some (name a)) []) = getInitials upper (name a)"
    by (cases "name a = []") (simp_all add: or_js_def)
  show ?thesis
    using assms nm
    by (simp add: avatarFallback_def chain_avatar_def chain_name_def or_js_def
        split: option.splits)
qed

theorem avatarFallback_bound_witness:
  "account (bound_slot 2 alice) = Some alice
   \<and> avatarFallback upper_ascii (bound_slot 2 alice) = js ''AL''"
  using avatarFallback_bound [of "bound_slot 2 alice" alice upper_ascii]
  by (simp add: bound_slot_def alice_def getInitials_def initials_joined_def slice_js_def
      index0_def js_def space_def upper_ascii_def)

lemma avatarFallback_examples:
  "avatarFallback upper_ascii (bound_slot 1 bob) = js ''BB''"
  "avatarFallback upper_ascii (bound_slot 1 (bob\<lparr>avatar := Some []\<rparr>)) = js ''BM''"
  by (simp_all add: avatarFallback_def chain_avatar_def chain_name_def or_js_def
      bound_slot_def bob_def getInitials_def initials_joined_def slice_js_def index0_def
      js_def space_def upper_ascii_def)

lemma getInitials_examples:
  "getInitials upper_ascii (js ''john  ronald reuel'') = js ''JR''"
  "getInitials upper_ascii (js '' x'') = js ''X''"
  "getInitials upper_ascii [] = []"
  "getInitials upper_ascii (js ''   '') = []"
  by (simp_all add: getInitials_def initials_joined_def slice_js_def index0_def js_def
      space_def upper_ascii_def)


section \<open>Properties of the import flow\<close>

lemma handleQRImport_blank:
  "trim (qrData st) = [] \<Longrightarrow> handleQRImport imp st w = (toast_error msg_no_payload st, w)"
  by (simp add: handleQRImport_def handleQRImport_begin_def)

lemma handleQRImport_rejected:
  assumes "trim (qrData st) \<noteq> []" and "fst (imp (qrData st) (selectedSlot st) w) = Inl e"
  shows "handleQRImport imp st w =
     (st\<lparr>importing := False,
         importCalls := importCalls st @ [(qrData st, selectedSlot st)],
         toasts := toasts st @ [ToastError msg_import_failed]\<rparr>,
      snd (imp (qrData st) (selectedSlot st) w))"
  using assms
  by (simp add: handleQRImport_def handleQRImport_begin_def handleQRImport_settle_def
      toast_error_def Let_def)

lemma handleQRImport_resolved:
  assumes "trim (qrData st) \<noteq> []" and "fst (imp (qrData st) (selectedSlot st) w) = Inr u"
  shows "handleQRImport imp st w =
     (st\<lparr>importing := False,
         importCalls := importCalls st @ [(qrData st, selectedSlot st)],
         toasts := toasts st @ [ToastSuccess msg_imported],
         showImportDialog := False, qrData := [], reloads := Suc (reloads st)\<rparr>,
      snd (imp (qrData st) (selectedSlot st) w))"
  using assms
  by (simp add: handleQRImport_def handleQRImport_begin_def handleQRImport_settle_def
      toast_success_def Let_def)

lemma find_none_all: "List.find P xs = None \<longleftrightarrow> (\<forall>x\<in>set xs. \<not> P x)"
  by (auto simp: find_None_iff)

lemma handleImportAccount_full:
  assumes "\<not> list_ex isEmpty accounts"
  shows "handleImportAccount accounts st = toast_error msg_all_occupied st"
proof -
  have "List.find isEmpty accounts = None"
    using assms by (simp add: find_none_all list_ex_iff)
  then show ?thesis by (simp add: handleImportAccount_def availableSlot_def)
qed

lemma find_first_sorted:
  assumes "sorted (map slot accounts)" and "List.find isEmpty accounts = Some s"
  shows "isEmpty s \<and> s \<in> set accounts \<and> (\<forall>t\<in>set accounts. isEmpty t \<longrightarrow> slot s \<le> slot t)"
  using assms
proof (induction accounts)
  case Nil
  then show ?case by simp
next
  case (Cons a as)
  show ?case
  proof (cases "isEmpty a")
    case True
    with Cons.prems show ?thesis by auto
  next
    case False
    with Cons show ?thesis by auto
  qed
qed

lemma lowest_empty_first:
  assumes "sorted (map slot accounts)" and "List.find isEmpty accounts = Some s"
  shows "lowest_empty accounts = slot s"
proof -
  from find_first_sorted [OF assms]
  have e: "isEmpty s" and m: "s \<in> set accounts"
    and le: "\<forall>t\<in>set accounts. isEmpty t \<longrightarrow> slot s \<le> slot t" by auto
  have "slot s \<in> set (map slot (filter isEmpty accounts))" using e m by auto
  moreover have "\<forall>n\<in>set (map slot (filter isEmpty accounts)). slot s \<le> n" using le by auto
  ultimately show ?thesis
    unfolding lowest_empty_def by (intro Min_eqI) auto
qed

lemma registry_in_order: "registry_slots accounts \<Longrightarrow> in_slot_order accounts"
  unfolding registry_slots_def in_slot_order_def list_all_iff
proof (intro conjI ballI)
  assume h: "map slot accounts = map int [1..<Suc (length accounts)]"
  show "sorted (map slot accounts)" unfolding h by (simp add: sorted_map del: upt_Suc) 
  fix s assume "s \<in> set accounts"
  then have "slot s \<in> set (map slot accounts)" by simp
  then show "0 < slot s" unfolding h by auto
qed

lemma step_keeps: "one_in_flight st \<Longrightarrow> one_in_flight (step ev st)"
proof (cases ev)
  case ClickImport
  assume "one_in_flight st"
  then show ?thesis using ClickImport
    by (auto simp: one_in_flight_def step_def handleQRImport_begin_def)
next
  case (Settle r)
  assume "one_in_flight st"
  then show ?thesis using Settle
    by (cases r) (auto simp: one_in_flight_def step_def handleQRImport_settle_def toast_error_def toast_success_def)
next
  case (ClickImportAccount accounts)
  assume "one_in_flight st"
  then show ?thesis using ClickImportAccount
    by (auto simp: one_in_flight_def step_def handleImportAccount_def toast_error_def split: option.splits)
qed (auto simp: one_in_flight_def step_def)

lemma run_keeps: "one_in_flight st \<Longrightarrow> one_in_flight (run evs st)"
  by (induction evs arbitrary: st) (simp_all add: step_keeps)

lemma importFromQR_failure_keeps:
  "fst (importFromQR decode save payload n reg) = Inl e
   \<Longrightarrow> snd (importFromQR decode save payload n reg) = reg"
  by (auto simp: importFromQR_def split: option.splits sum.splits)

lemmas fixture_defs =
  alice_def bob_def empty_slot_def bound_slot_def decode_demo_def save_ok_def js_def

lemma trim_ws: "trim [0x20, 0x0A, 0x09] = []"
  by (simp add: trim_def isWhiteSpace_def)

lemma trim_x: "trim (js ''bob'') \<noteq> []"
  by (simp add: trim_def isWhiteSpace_def js_def)

text \<open>
  C1.  When the payload is empty after trimming, \<open>handleQRImport\<close> only shows the
  notification of the empty payload: \<open>importFromQR\<close> is not called (the call log and the
  world it could write to are as before) and no state cell changes.
\<close>

theorem blank_payload_rejected:
  assumes "trim (qrData st) = []"
  shows "handleQRImport imp st w = (st\<lparr>toasts := toasts st @ [ToastError msg_no_payload]\<rparr>, w)
     \<and> importCalls (fst (handleQRImport imp st w)) = importCalls st
     \<and> inFlight (fst (handleQRImport imp st w)) = inFlight st"
  using assms by (simp add: handleQRImport_blank toast_error_def)

theorem blank_payload_rejected_witness:
  "trim (qrData (initial\<lparr>qrData := [0x20, 0x0A, 0x09]\<rparr>)) = []
   \<and> handleQRImport (importFromQR decode_demo save_ok) (initial\<lparr>qrData := [0x20, 0x0A, 0x09]\<rparr>)
        [empty_slot 1, bound_slot 2 alice, empty_slot 3]
      = (initial\<lparr>qrData := [0x20, 0x0A, 0x09], toasts := [ToastError msg_no_payload]\<rparr>,
         [empty_slot 1, bound_slot 2 alice, empty_slot 3])"
  using blank_payload_rejected [of "initial\<lparr>qrData := [0x20, 0x0A, 0x09]\<rparr>"
      "importFromQR decode_demo save_ok" "[empty_slot 1, bound_slot 2 alice, empty_slot 3]"]
  by (simp add: trim_ws initial_def)

text \<open>
  C2.  When no slot of the list is empty, \<open>handleImportAccount\<close> only shows the
  notification that all slots are occupied: the dialog that asks for the payload is not
  opened and \<open>importFromQR\<close> is not called.
\<close>

theorem full_slot_list_rejected:
  assumes "\<not> list_ex isEmpty accounts"
  shows "handleImportAccount accounts st = st\<lparr>toasts := toasts st @ [ToastError msg_all_occupied]\<rparr>
     \<and> showImportDialog (handleImportAccount accounts st) = showImportDialog st
     \<and> importCalls (handleImportAccount accounts st) = importCalls st"
  using assms by (simp add: handleImportAccount_full toast_error_def)

theorem full_slot_list_rejected_witness:
  "\<not> list_ex isEmpty [bound_slot 1 alice, bound_slot 2 bob, bound_slot 3 alice]
   \<and> handleImportAccount [bound_slot 1 alice, bound_slot 2 bob, bound_slot 3 alice] initial
       = initial\<lparr>toasts := [ToastError msg_all_occupied]\<rparr>"
  using full_slot_list_rejected [of "[bound_slot 1 alice, bound_slot 2 bob, bound_slot 3 alice]" initial]
  by (simp add: bound_slot_def initial_def)

text \<open>
  C3.  For a slot list as the registry gives it (in slot-number order, numbers positive)
  with at least one empty slot, the slot that \<open>find\<close> selects as import target is the
  lowest-numbered empty slot, and the dialog opens on it.
\<close>

theorem import_target_lowest_empty:
  assumes "in_slot_order accounts" and "list_ex isEmpty accounts"
  shows "availableSlot accounts = Some (lowest_empty accounts)
     \<and> handleImportAccount accounts st =
         st\<lparr>selectedSlot := lowest_empty accounts, showImportDialog := True\<rparr>"
proof -
  from assms(2) obtain s where f: "List.find isEmpty accounts = Some s"
    by (cases "List.find isEmpty accounts") (auto simp: find_None_iff list_ex_iff)
  from assms(1) have so: "sorted (map slot accounts)" and pos: "\<forall>t\<in>set accounts. 0 < slot t"
    by (auto simp: in_slot_order_def list_all_iff)
  have lo: "lowest_empty accounts = slot s" by (rule lowest_empty_first [OF so f])
  have "s \<in> set accounts" using find_first_sorted [OF so f] by simp
  then have nz: "slot s \<noteq> 0" using pos by auto
  show ?thesis using f lo nz by (simp add: handleImportAccount_def availableSlot_def)
qed

theorem import_target_lowest_empty_witness:
  "in_slot_order [bound_slot 1 alice, empty_slot 2, empty_slot 3]
   \<and> list_ex isEmpty [bound_slot 1 alice, empty_slot 2, empty_slot 3]
   \<and> lowest_empty [bound_slot 1 alice, empty_slot 2, empty_slot 3] = 2
   \<and> handleImportAccount [bound_slot 1 alice, empty_slot 2, empty_slot 3] initial
       = initial\<lparr>selectedSlot := 2, showImportDialog := True\<rparr>"
proof -
  have o: "in_slot_order [bound_slot 1 alice, empty_slot 2, empty_slot 3]"
    by (simp add: in_slot_order_def bound_slot_def empty_slot_def)
  have e: "list_ex isEmpty [bound_slot 1 alice, empty_slot 2, empty_slot 3]"
    by (simp add: bound_slot_def empty_slot_def)
  have l: "lowest_empty [bound_slot 1 alice, empty_slot 2, empty_slot 3] = 2"
    by (simp add: lowest_empty_def bound_slot_def empty_slot_def)
  show ?thesis
    using import_target_lowest_empty [OF o e, of initial] o e l by simp
qed

text \<open>
  C4.  For every payload and target slot, when \<open>importFromQR\<close> fails (a decode error, or
  an error of the registry), the registry after \<open>handleQRImport\<close> is the registry before:
  no account has been bound to any slot.
\<close>

theorem failed_import_keeps_registry:
  assumes "fst (importFromQR decode save (qrData st) (selectedSlot st) reg) = Inl e"
  shows "snd (importFromQR decode save (qrData st) (selectedSlot st) reg) = reg
     \<and> snd (handleQRImport (importFromQR decode save) st reg) = reg"
  using assms importFromQR_failure_keeps [OF assms]
  by (simp add: handleQRImport_def handleQRImport_begin_def Let_def)

theorem failed_import_keeps_registry_witness:
  "fst (importFromQR decode_demo save_ok (qrData (initial\<lparr>qrData := js ''junk''\<rparr>))
         (selectedSlot (initial\<lparr>qrData := js ''junk''\<rparr>))
         [empty_slot 1, bound_slot 2 alice, empty_slot 3]) = Inl DecodeError
   \<and> snd (handleQRImport (importFromQR decode_demo save_ok) (initial\<lparr>qrData := js ''junk''\<rparr>)
         [empty_slot 1, bound_slot 2 alice, empty_slot 3])
      = [empty_slot 1, bound_slot 2 alice, empty_slot 3]"
proof -
  have h: "fst (importFromQR decode_demo save_ok (qrData (initial\<lparr>qrData := js ''junk''\<rparr>))
         (selectedSlot (initial\<lparr>qrData := js ''junk''\<rparr>))
         [empty_slot 1, bound_slot 2 alice, empty_slot 3]) = Inl DecodeError"
    by (simp add: importFromQR_def decode_demo_def js_def)
  show ?thesis using failed_import_keeps_registry [OF h] h by simp
qed

lemma import_binds_example:
  "handleQRImport (importFromQR decode_demo save_ok) (initial\<lparr>qrData := js ''bob'', showImportDialog := True\<rparr>)
      [empty_slot 1, bound_slot 2 alice, empty_slot 3]
   = (initial\<lparr>toasts := [ToastSuccess msg_imported], importCalls := [(js ''bob'', 1)], reloads := 1\<rparr>,
      [bound_slot 1 bob, bound_slot 2 alice, empty_slot 3])"
  by (simp add: handleQRImport_def handleQRImport_begin_def handleQRImport_settle_def
     importFromQR_def bindAccount_def fixture_defs initial_def trim_def isWhiteSpace_def toast_success_def)

lemma occupied_example:
  "fst (importFromQR decode_demo save_ok (js ''bob'') 2 [empty_slot 1, bound_slot 2 alice, empty_slot 3]) = Inl SlotOccupied"
  "fst (importFromQR decode_demo save_ok (js ''bob'') 7 [empty_slot 1, bound_slot 2 alice, empty_slot 3]) = Inl InvalidSlot"
  by (simp_all add: importFromQR_def bindAccount_def fixture_defs)

text \<open>
  C5, as stated, fails: \<open>DecodeError\<close> and \<open>SlotOccupied\<close> are different errors, and the
  \<open>catch\<close> of \<open>handleQRImport\<close> shows the same notification for both.
\<close>

theorem thrown_errors_share_notification:
  "DecodeError \<noteq> SlotOccupied
   \<and> toasts (fst (handleQRImport (throwing DecodeError) (initial\<lparr>qrData := js ''bob''\<rparr>) ()))
       = [ToastError msg_import_failed]
   \<and> toasts (fst (handleQRImport (throwing SlotOccupied) (initial\<lparr>qrData := js ''bob''\<rparr>) ()))
       = [ToastError msg_import_failed]"
  by (simp add: handleQRImport_def handleQRImport_begin_def handleQRImport_settle_def
      throwing_def initial_def toast_error_def trim_def isWhiteSpace_def js_def)

text \<open>
  C5, amended.  The import flow has three failure notifications, pairwise different: one
  when no slot is empty, one for a payload that is blank, and one for every failure of
  \<open>importFromQR\<close>, whatever the error thrown.
\<close>

theorem failure_notifications:
  "msg_all_occupied \<noteq> msg_no_payload
   \<and> msg_all_occupied \<noteq> msg_import_failed
   \<and> msg_no_payload \<noteq> msg_import_failed
   \<and> (\<not> list_ex isEmpty accounts \<longrightarrow>
        toasts (handleImportAccount accounts st) = toasts st @ [ToastError msg_all_occupied])
   \<and> (trim (qrData st1) = [] \<longrightarrow>
        toasts (fst (handleQRImport imp1 st1 w1)) = toasts st1 @ [ToastError msg_no_payload])
   \<and> (trim (qrData st2) \<noteq> [] \<and> fst (imp2 (qrData st2) (selectedSlot st2) w2) = Inl e \<longrightarrow>
        toasts (fst (handleQRImport imp2 st2 w2)) = toasts st2 @ [ToastError msg_import_failed])"
proof -
  have m: "msg_all_occupied \<noteq> msg_no_payload" "msg_all_occupied \<noteq> msg_import_failed"
    "msg_no_payload \<noteq> msg_import_failed"
    by (simp_all add: msg_all_occupied_def msg_no_payload_def msg_import_failed_def)
  have a: "\<not> list_ex isEmpty accounts \<longrightarrow>
        toasts (handleImportAccount accounts st) = toasts st @ [ToastError msg_all_occupied]"
    by (simp add: handleImportAccount_full toast_error_def)
  have b: "trim (qrData st1) = [] \<longrightarrow>
        toasts (fst (handleQRImport imp1 st1 w1)) = toasts st1 @ [ToastError msg_no_payload]"
    by (simp add: handleQRImport_blank toast_error_def)
  have c: "trim (qrData st2) \<noteq> [] \<and> fst (imp2 (qrData st2) (selectedSlot st2) w2) = Inl e \<longrightarrow>
        toasts (fst (handleQRImport imp2 st2 w2)) = toasts st2 @ [ToastError msg_import_failed]"
    by (simp add: handleQRImport_rejected)
  show ?thesis using m a b c by blast
qed

theorem failure_notifications_witness:
  "\<not> list_ex isEmpty [bound_slot 1 alice]
   \<and> toasts (handleImportAccount [bound_slot 1 alice] initial) = [ToastError msg_all_occupied]
   \<and> trim (qrData initial) = []
   \<and> toasts (fst (handleQRImport (throwing InvalidSlot) initial ())) = [ToastError msg_no_payload]
   \<and> trim (qrData (initial\<lparr>qrData := js ''bob''\<rparr>)) \<noteq> []
   \<and> fst (throwing InvalidSlot (qrData (initial\<lparr>qrData := js ''bob''\<rparr>))
            (selectedSlot (initial\<lparr>qrData := js ''bob''\<rparr>)) ()) = Inl InvalidSlot
   \<and> toasts (fst (handleQRImport (throwing InvalidSlot) (initial\<lparr>qrData := js ''bob''\<rparr>) ()))
       = [ToastError msg_import_failed]"
proof -
  have h1: "\<not> list_ex isEmpty [bound_slot 1 alice]" by (simp add: bound_slot_def)
  have h2: "trim (qrData initial) = []" by (simp add: initial_def trim_def)
  have h3: "trim (qrData (initial\<lparr>qrData := js ''bob''\<rparr>)) \<noteq> []" by (simp add: trim_x)
  have h4: "fst (throwing InvalidSlot (qrData (initial\<lparr>qrData := js ''bob''\<rparr>))
            (selectedSlot (initial\<lparr>qrData := js ''bob''\<rparr>)) ()) = Inl InvalidSlot"
    by (simp add: throwing_def)
  have t: "toasts initial = []" "toasts (initial\<lparr>qrData := js ''bob''\<rparr>) = []"
    by (simp_all add: initial_def)
  show ?thesis
    using failure_notifications [of "[bound_slot 1 alice]" initial initial
        "throwing InvalidSlot" "()" "initial\<lparr>qrData := js ''bob''\<rparr>" "throwing InvalidSlot" "()"
        InvalidSlot] h1 h2 h3 h4 t
    by simp
qed

lemma settle_clears_importing: "\<not> importing (handleQRImport_settle r st)"
  by (cases r) (simp_all add: handleQRImport_settle_def toast_error_def toast_success_def)

text \<open>
  C8.  In every run of the component from its initial state at most one call of
  \<open>importFromQR\<close> is unsettled, and \<open>importing\<close> is true exactly while one is.  The flag
  is set before the call is awaited, it is false after the promise settles either way,
  and while it is true the Import button is disabled, so a click starts nothing.
\<close>

theorem single_import_in_flight:
  "inFlight (run evs initial) \<le> 1
   \<and> (importing (run evs initial) \<longleftrightarrow> inFlight (run evs initial) = 1)
   \<and> (importing st \<longrightarrow> \<not> enabled (ClickImport :: 'e event) st)
   \<and> (importing st \<longrightarrow> step (ClickImport :: 'e event) st = st)
   \<and> (trim (qrData st) \<noteq> [] \<longrightarrow> importing (handleQRImport_begin st))
   \<and> \<not> importing (handleQRImport_settle r st)
   \<and> (trim (qrData st) \<noteq> [] \<longrightarrow> \<not> importing (fst (handleQRImport imp st w)))"
  for evs :: "'e event list"
proof -
  have "one_in_flight initial" by (simp add: one_in_flight_def initial_def)
  then have "one_in_flight (run evs initial)" by (rule run_keeps)
  then have a: "inFlight (run evs initial) \<le> 1"
    "importing (run evs initial) \<longleftrightarrow> inFlight (run evs initial) = 1"
    by (simp_all add: one_in_flight_def)
  have b: "importing st \<longrightarrow> \<not> enabled (ClickImport :: 'e event) st"
    "importing st \<longrightarrow> step (ClickImport :: 'e event) st = st"
    by (simp_all add: step_def)
  have c: "trim (qrData st) \<noteq> [] \<longrightarrow> importing (handleQRImport_begin st)"
    by (simp add: handleQRImport_begin_def)
  have d: "\<not> importing (handleQRImport_settle r st)"
    by (rule settle_clears_importing)
  have e: "trim (qrData st) \<noteq> [] \<longrightarrow> \<not> importing (fst (handleQRImport imp st w))"
    by (simp add: handleQRImport_def Let_def settle_clears_importing)
  show ?thesis using a b c d e by blast
qed

lemma session_state:
  "run session_events initial =
     initial\<lparr>selectedSlot := 2, showImportDialog := True, qrData := js ''bob'',
       importing := True, importCalls := [(js ''bob'', 2)], inFlight := 1\<rparr>"
  by (simp add: session_events_def step_def handleImportAccount_def availableSlot_def
      handleQRImport_begin_def bound_slot_def empty_slot_def initial_def trim_def
      isWhiteSpace_def js_def)

theorem single_import_in_flight_witness:
  "importing (run session_events initial)
   \<and> trim (qrData (run session_events initial)) \<noteq> []
   \<and> inFlight (run session_events initial) = 1
   \<and> importCalls (run session_events initial) = [(js ''bob'', 2)]
   \<and> \<not> enabled (ClickImport :: import_error event) (run session_events initial)
   \<and> \<not> importing (handleQRImport_settle (Inl DecodeError) (run session_events initial))"
proof -
  have i: "importing (run session_events initial)" by (simp add: session_state)
  have t: "trim (qrData (run session_events initial)) \<noteq> []"
    by (simp add: session_state trim_x)
  have c: "importCalls (run session_events initial) = [(js ''bob'', 2)]"
    by (simp add: session_state)
  show ?thesis
    using single_import_in_flight [of session_events "run session_events initial"
        "Inl DecodeError" "throwing DecodeError" "()"] i t c
    by simp
qed

text \<open>
  C9.  A failed import attempt (blank payload, or \<open>importFromQR\<close> rejecting) leaves the
  payload text, the selected slot and the state of the dialog as they were; a successful
  one clears the payload and closes the dialog.
\<close>

theorem failed_import_keeps_form:
  "(trim (qrData st) = [] \<or> fst (imp (qrData st) (selectedSlot st) w) = Inl e \<longrightarrow>
      qrData (fst (handleQRImport imp st w)) = qrData st
      \<and> selectedSlot (fst (handleQRImport imp st w)) = selectedSlot st
      \<and> showImportDialog (fst (handleQRImport imp st w)) = showImportDialog st)
   \<and> (trim (qrData st2) \<noteq> [] \<and> fst (imp2 (qrData st2) (selectedSlot st2) w2) = Inr u \<longrightarrow>
      qrData (fst (handleQRImport imp2 st2 w2)) = []
      \<and> selectedSlot (fst (handleQRImport imp2 st2 w2)) = selectedSlot st2
      \<and> \<not> showImportDialog (fst (handleQRImport imp2 st2 w2)))"
proof -
  have a: "trim (qrData st) = [] \<or> fst (imp (qrData st) (selectedSlot st) w) = Inl e \<longrightarrow>
      qrData (fst (handleQRImport imp st w)) = qrData st
      \<and> selectedSlot (fst (handleQRImport imp st w)) = selectedSlot st
      \<and> showImportDialog (fst (handleQRImport imp st w)) = showImportDialog st"
  proof (cases "trim (qrData st) = []")
    case True
    then show ?thesis by (simp add: handleQRImport_blank toast_error_def)
  next
    case False
    then show ?thesis by (auto simp: handleQRImport_rejected)
  qed
  have b: "trim (qrData st2) \<noteq> [] \<and> fst (imp2 (qrData st2) (selectedSlot st2) w2) = Inr u \<longrightarrow>
      qrData (fst (handleQRImport imp2 st2 w2)) = []
      \<and> selectedSlot (fst (handleQRImport imp2 st2 w2)) = selectedSlot st2
      \<and> \<not> showImportDialog (fst (handleQRImport imp2 st2 w2))"
    by (auto simp: handleQRImport_resolved)
  show ?thesis using a b by blast
qed

theorem failed_import_keeps_form_witness:
  "fst (importFromQR decode_demo save_ok (qrData (initial\<lparr>qrData := js ''junk'', showImportDialog := True\<rparr>))
         (selectedSlot (initial\<lparr>qrData := js ''junk'', showImportDialog := True\<rparr>))
         [empty_slot 1, bound_slot 2 alice, empty_slot 3]) = Inl DecodeError
   \<and> qrData (fst (handleQRImport (importFromQR decode_demo save_ok)
         (initial\<lparr>qrData := js ''junk'', showImportDialog := True\<rparr>)
         [empty_slot 1, bound_slot 2 alice, empty_slot 3])) = js ''junk''
   \<and> showImportDialog (fst (handleQRImport (importFromQR decode_demo save_ok)
         (initial\<lparr>qrData := js ''junk'', showImportDialog := True\<rparr>)
         [empty_slot 1, bound_slot 2 alice, empty_slot 3]))
   \<and> trim (qrData (initial\<lparr>qrData := js ''bob'', showImportDialog := True\<rparr>)) \<noteq> []
   \<and> fst (importFromQR decode_demo save_ok (qrData (initial\<lparr>qrData := js ''bob'', showImportDialog := True\<rparr>))
         (selectedSlot (initial\<lparr>qrData := js ''bob'', showImportDialog := True\<rparr>))
         [empty_slot 1, bound_slot 2 alice, empty_slot 3]) = Inr ()
   \<and> qrData (fst (handleQRImport (importFromQR decode_demo save_ok)
         (initial\<lparr>qrData := js ''bob'', showImportDialog := True\<rparr>)
         [empty_slot 1, bound_slot 2 alice, empty_slot 3])) = []
   \<and> \<not> showImportDialog (fst (handleQRImport (importFromQR decode_demo save_ok)
         (initial\<lparr>qrData := js ''bob'', showImportDialog := True\<rparr>)
         [empty_slot 1, bound_slot 2 alice, empty_slot 3]))"
proof -
  have f: "fst (importFromQR decode_demo save_ok (qrData (initial\<lparr>qrData := js ''junk'', showImportDialog := True\<rparr>))
         (selectedSlot (initial\<lparr>qrData := js ''junk'', showImportDialog := True\<rparr>))
         [empty_slot 1, bound_slot 2 alice, empty_slot 3]) = Inl DecodeError"
    by (simp add: importFromQR_def decode_demo_def js_def)
  have t: "trim (qrData (initial\<lparr>qrData := js ''bob'', showImportDialog := True\<rparr>)) \<noteq> []"
    by (simp add: trim_x)
  have g: "fst (importFromQR decode_demo save_ok (qrData (initial\<lparr>qrData := js ''bob'', showImportDialog := True\<rparr>))
         (selectedSlot (initial\<lparr>qrData := js ''bob'', showImportDialog := True\<rparr>))
         [empty_slot 1, bound_slot 2 alice, empty_slot 3]) = Inr ()"
    by (simp add: importFromQR_def bindAccount_def fixture_defs initial_def)
  have d: "showImportDialog (initial\<lparr>qrData := js ''junk'', showImportDialog := True\<rparr>)"
    by simp
  show ?thesis
    using failed_import_keeps_form [of "initial\<lparr>qrData := js ''junk'', showImportDialog := True\<rparr>"
        "importFromQR decode_demo save_ok" "[empty_slot 1, bound_slot 2 alice, empty_slot 3]"
        DecodeError "initial\<lparr>qrData := js ''bob'', showImportDialog := True\<rparr>"
        "importFromQR decode_demo save_ok" "[empty_slot 1, bound_slot 2 alice, empty_slot 3]" "()"]
      f t g d
    by simp
qed

end
